theory Spec2Isabelle
  imports Complex_Main "HOL-Library.AList"
begin

section \<open>Data model of \<^verbatim>\<open>src/app/page.tsx\<close>\<close>

text \<open>
  The page keeps a list of persons and a list of expenses and derives two views from
  them: the balance of every person and a list of suggested transfers.

  Numbers: the source computes with JavaScript numbers. They are modelled as exact
  rationals, so \<open>+\<close>, \<open>-\<close>, \<open>/\<close>, \<open>min\<close> and the comparisons are the
  mathematical ones; IEEE rounding, \<open>NaN\<close> and the infinities are outside the model.

  Objects: \<^verbatim>\<open>b: Record<string, number>\<close> is an association list in insertion
  order. \<^verbatim>\<open>b[k] = v\<close> overwrites the entry of \<open>k\<close> in place or appends a new one
  (\<open>AList.update\<close>), \<^verbatim>\<open>b[k] ?? 0\<close> reads it with default \<open>0\<close>, and
  \<^verbatim>\<open>Object.keys(b)\<close> is the list of first components. Identifiers are taken not to
  be names of inherited object properties and not to be integer-like keys.
\<close>

record Person =
  id_p :: string
  nombre :: string

record Expense =
  id_g :: string
  descripcion :: string
  monto :: rat
  pagadorId :: string
  participantes :: "string list"
  fecha :: string

record Entry =
  id_e :: string
  amount_e :: rat

record Move =
  fromId :: string
  toId :: string
  amount :: rat

type_synonym balance_map = "(string \<times> rat) list"

section \<open>Balances\<close>

text \<open>\<^verbatim>\<open>b[k] ?? 0\<close>\<close>

definition get0 :: "balance_map \<Rightarrow> string \<Rightarrow> rat" where
  "get0 b k = (case map_of b k of None \<Rightarrow> 0 | Some v \<Rightarrow> v)"

text \<open>\<^verbatim>\<open>state.personas.forEach((p) => (b[p.id] = 0))\<close>\<close>

definition init_balances :: "Person list \<Rightarrow> balance_map" where
  "init_balances personas = foldl (\<lambda>b p. AList.update (id_p p) 0 b) [] personas"

text \<open>The body of \<^verbatim>\<open>for (const pid of g.participantes)\<close>.\<close>

definition share_step :: "Expense \<Rightarrow> rat \<Rightarrow> balance_map \<Rightarrow> string \<Rightarrow> balance_map" where
  "share_step g share b pid =
     (if pid = pagadorId g
      then AList.update pid (get0 b pid + (monto g - share)) b
      else AList.update pid (get0 b pid - share) b)"

text \<open>The body of \<^verbatim>\<open>for (const g of state.gastos)\<close>.\<close>

definition gasto_step :: "balance_map \<Rightarrow> Expense \<Rightarrow> balance_map" where
  "gasto_step b g =
     (if monto g \<le> 0 \<or> length (participantes g) = 0 then b
      else
        let share = monto g / of_nat (length (participantes g));
            b1 = foldl (share_step g share) b (participantes g)
        in if pagadorId g \<notin> set (participantes g)
           then AList.update (pagadorId g) (get0 b1 (pagadorId g) + monto g) b1
           else b1)"

definition balances :: "Person list \<Rightarrow> Expense list \<Rightarrow> balance_map" where
  "balances personas gastos = foldl gasto_step (init_balances personas) gastos"


section \<open>Settlements\<close>

text \<open>The body of \<^verbatim>\<open>for (const pid of Object.keys(balances))\<close>: the pair holds the
  lists \<open>debtors\<close> and \<open>creditors\<close>.\<close>

definition classify :: "Entry list \<times> Entry list \<Rightarrow> string \<times> rat \<Rightarrow> Entry list \<times> Entry list" where
  "classify acc kv =
     (let pid = fst kv; v = snd kv in
      if v < - 0.005 then (fst acc @ [\<lparr>id_e = pid, amount_e = - v\<rparr>], snd acc)
      else if v > 0.005 then (fst acc, snd acc @ [\<lparr>id_e = pid, amount_e = v\<rparr>])
      else acc)"

definition partition_entries :: "balance_map \<Rightarrow> Entry list \<times> Entry list" where
  "partition_entries b = foldl classify ([], []) b"

text \<open>\<^verbatim>\<open>xs.sort((a, b) => b.amount - a.amount)\<close>: a stable sort, largest amount first.\<close>

definition sort_desc :: "Entry list \<Rightarrow> Entry list" where
  "sort_desc xs = sort_key (\<lambda>e. - amount_e e) xs"







section \<open>Deleting a person\<close>

text \<open>The state update of \<^verbatim>\<open>removePersona\<close>, on the two lists it changes.\<close>

definition removePersona :: "string \<Rightarrow> Person list \<times> Expense list \<Rightarrow> Person list \<times> Expense list" where
  "removePersona pid st =
     (filter (\<lambda>p. id_p p \<noteq> pid) (fst st),
      filter (\<lambda>g. pagadorId g \<noteq> pid)
        (map (\<lambda>g. g\<lparr>participantes := filter (\<lambda>q. q \<noteq> pid) (participantes g)\<rparr>) (snd st)))"

section \<open>Notions used to state and prove the properties\<close>


text \<open>The loop as seen from the two cursors: the entries from each cursor on, the first
  one carrying its reduced amount. \<open>settle_loop_lists\<close> below proves that the loop over
  the arrays emits exactly these transfers.\<close>

function settle_lists :: "Entry list \<Rightarrow> Entry list \<Rightarrow> Move list" where
  "settle_lists [] cs = []"
| "settle_lists (d # ds) [] = []"
| "settle_lists (d # ds) (c # cs) =
     (let pay = min (amount_e d) (amount_e c);
          d' = d\<lparr>amount_e := amount_e d - pay\<rparr>;
          c' = c\<lparr>amount_e := amount_e c - pay\<rparr>
      in \<lparr>fromId = id_e d, toId = id_e c, amount = pay\<rparr>
           # settle_lists (if amount_e d' \<le> 0.005 then ds else d' # ds)
                          (if amount_e c' \<le> 0.005 then cs else c' # cs))"
  by pat_completeness auto
termination
  by (relation "measure (\<lambda>(ds, cs). length ds + length cs)") (auto simp add: min_def)

text \<open>Sums over the transfers paid by, or received by, the identifiers selected by \<open>Q\<close>;
  the amounts and the number of the entries of those identifiers.\<close>

definition out_sum :: "(string \<Rightarrow> bool) \<Rightarrow> Move list \<Rightarrow> rat" where
  "out_sum Q ms = (\<Sum>m\<leftarrow>filter (\<lambda>m. Q (fromId m)) ms. amount m)"

definition in_sum :: "(string \<Rightarrow> bool) \<Rightarrow> Move list \<Rightarrow> rat" where
  "in_sum Q ms = (\<Sum>m\<leftarrow>filter (\<lambda>m. Q (toId m)) ms. amount m)"

definition owed :: "(string \<Rightarrow> bool) \<Rightarrow> Entry list \<Rightarrow> rat" where
  "owed Q es = (\<Sum>e\<leftarrow>filter (\<lambda>e. Q (id_e e)) es. amount_e e)"

definition cnt :: "(string \<Rightarrow> bool) \<Rightarrow> Entry list \<Rightarrow> nat" where
  "cnt Q es = length (filter (\<lambda>e. Q (id_e e)) es)"

section \<open>Properties of the balance computation\<close>

subsection \<open>Reading and writing the balance map\<close>






























subsection \<open>C1: what one expense does to the balances\<close>




subsection \<open>C5: skipped expenses\<close>

text \<open>
  C5. An expense whose amount is not positive, or whose participant list is empty, is
  skipped by the \<^verbatim>\<open>continue\<close>: the balance map computed from a list of expenses that
  contains it, at any position, is the balance map computed from the list without it.
  The computation has no failing branch.
\<close>

theorem skipped_expense_no_effect:
  assumes "monto g \<le> 0 \<or> participantes g = []"
  shows "balances personas (xs @ g # ys) = balances personas (xs @ ys)"
proof -
  have "gasto_step b g = b" for b
    using assms by (auto simp add: gasto_step_def)
  then show ?thesis by (simp add: balances_def)
qed


theorem skipped_expense_no_effect_witness:
  "(monto \<lparr>id_g = ''g0'', descripcion = ''nada'', monto = 0, pagadorId = ''A'',
       participantes = [''A'', ''B''], fecha = ''2024-05-01''\<rparr> \<le> 0
    \<or> participantes \<lparr>id_g = ''g0'', descripcion = ''nada'', monto = 0, pagadorId = ''A'',
       participantes = [''A'', ''B''], fecha = ''2024-05-01''\<rparr> = [])
   \<and> balances [\<lparr>id_p = ''A'', nombre = ''Ana''\<rparr>, \<lparr>id_p = ''B'', nombre = ''Luis''\<rparr>]
        ([\<lparr>id_g = ''g1'', descripcion = ''cena'', monto = 30, pagadorId = ''A'',
            participantes = [''A'', ''B''], fecha = ''2024-05-01''\<rparr>]
         @ \<lparr>id_g = ''g0'', descripcion = ''nada'', monto = 0, pagadorId = ''A'',
            participantes = [''A'', ''B''], fecha = ''2024-05-01''\<rparr> # [])
     = balances [\<lparr>id_p = ''A'', nombre = ''Ana''\<rparr>, \<lparr>id_p = ''B'', nombre = ''Luis''\<rparr>]
        ([\<lparr>id_g = ''g1'', descripcion = ''cena'', monto = 30, pagadorId = ''A'',
            participantes = [''A'', ''B''], fecha = ''2024-05-01''\<rparr>] @ [])"
  using skipped_expense_no_effect
    [of "\<lparr>id_g = ''g0'', descripcion = ''nada'', monto = 0, pagadorId = ''A'',
           participantes = [''A'', ''B''], fecha = ''2024-05-01''\<rparr>"
        "[\<lparr>id_p = ''A'', nombre = ''Ana''\<rparr>, \<lparr>id_p = ''B'', nombre = ''Luis''\<rparr>]"
        "[\<lparr>id_g = ''g1'', descripcion = ''cena'', monto = 30, pagadorId = ''A'',
            participantes = [''A'', ''B''], fecha = ''2024-05-01''\<rparr>]" "[]"]
  by simp

subsection \<open>C2: the balances add up to zero\<close>






subsection \<open>C9: identifiers that are not registered\<close>


section \<open>Properties of the settlement computation\<close>

subsection \<open>The loop over the arrays and the loop over the remaining entries\<close>


lemma settle_lists_Nil2 [simp]: "settle_lists ds [] = []"
  by (cases ds) simp_all

declare settle_lists.simps(3) [simp del]








subsection \<open>What is paid is bounded by what is owed\<close>

lemma out_sum_simps [simp]:
  "out_sum Q [] = 0"
  "out_sum Q (m # ms) = (if Q (fromId m) then amount m else 0) + out_sum Q ms"
  by (simp_all add: out_sum_def)

lemma in_sum_simps [simp]:
  "in_sum Q [] = 0"
  "in_sum Q (m # ms) = (if Q (toId m) then amount m else 0) + in_sum Q ms"
  by (simp_all add: in_sum_def)

lemma owed_simps [simp]:
  "owed Q [] = 0"
  "owed Q (e # es) = (if Q (id_e e) then amount_e e else 0) + owed Q es"
  by (simp_all add: owed_def)

lemma cnt_simps [simp]:
  "cnt Q [] = 0"
  "cnt Q (e # es) = (if Q (id_e e) then 1 else 0) + cnt Q es"
  by (simp_all add: cnt_def)





subsection \<open>Partition and sort\<close>

lemma foldl_classify:
  "foldl classify acc b =
     (fst acc @ map (\<lambda>kv. \<lparr>id_e = fst kv, amount_e = - snd kv\<rparr>) (filter (\<lambda>kv. snd kv < - 0.005) b),
      snd acc @ map (\<lambda>kv. \<lparr>id_e = fst kv, amount_e = snd kv\<rparr>) (filter (\<lambda>kv. 0.005 < snd kv) b))"
proof (induction b arbitrary: acc)
  case Nil
  show ?case by simp
next
  case (Cons kv b)
  show ?case
    by (simp add: Cons.IH) (simp add: classify_def Let_def)
qed

lemma fst_partition_entries:
  "fst (partition_entries b) =
     map (\<lambda>kv. \<lparr>id_e = fst kv, amount_e = - snd kv\<rparr>) (filter (\<lambda>kv. snd kv < - 0.005) b)"
  by (simp add: partition_entries_def foldl_classify)

lemma snd_partition_entries:
  "snd (partition_entries b) =
     map (\<lambda>kv. \<lparr>id_e = fst kv, amount_e = snd kv\<rparr>) (filter (\<lambda>kv. 0.005 < snd kv) b)"
  by (simp add: partition_entries_def foldl_classify)


lemma length_sort_desc [simp]: "length (sort_desc xs) = length xs"
  by (simp add: sort_desc_def)

lemma sort_desc_Nil_iff [simp]: "sort_desc xs = [] \<longleftrightarrow> xs = []"
  by (metis length_sort_desc length_0_conv)

lemma owed_insort: "owed Q (insort_key f x xs) = owed Q (x # xs)"
  by (induction xs) simp_all

lemma cnt_insort: "cnt Q (insort_key f x xs) = cnt Q (x # xs)"
  by (induction xs) simp_all

lemma owed_sort_desc [simp]: "owed Q (sort_desc xs) = owed Q xs"
  unfolding sort_desc_def by (induction xs) (simp_all add: owed_insort)

lemma cnt_sort_desc [simp]: "cnt Q (sort_desc xs) = cnt Q xs"
  unfolding sort_desc_def by (induction xs) (simp_all add: cnt_insort)

























lemma debtor_ids:
  assumes "distinct (map fst b)" and "(p, v) \<in> set b"
  shows "p \<in> id_e ` set (fst (partition_entries b)) \<longleftrightarrow> v < - 0.005"
proof -
  have "p \<in> id_e ` set (fst (partition_entries b)) \<longleftrightarrow> (\<exists>w. (p, w) \<in> set b \<and> w < - 0.005)"
    unfolding fst_partition_entries by (auto simp add: image_iff)
  also have "\<dots> \<longleftrightarrow> v < - 0.005"
    using assms eq_key_imp_eq_value [of b p] by blast
  finally show ?thesis .
qed

lemma creditor_ids:
  assumes "distinct (map fst b)" and "(p, v) \<in> set b"
  shows "p \<in> id_e ` set (snd (partition_entries b)) \<longleftrightarrow> 0.005 < v"
proof -
  have "p \<in> id_e ` set (snd (partition_entries b)) \<longleftrightarrow> (\<exists>w. (p, w) \<in> set b \<and> 0.005 < w)"
    unfolding snd_partition_entries by (auto simp add: image_iff)
  also have "\<dots> \<longleftrightarrow> 0.005 < v"
    using assms eq_key_imp_eq_value [of b p] by blast
  finally show ?thesis .
qed

subsection \<open>C3: what the transfers leave unsettled\<close>




subsection \<open>C4: the total transferred\<close>




subsection \<open>C6: the tolerance band\<close>

text \<open>
  C6. For a key \<open>p\<close> of the balance map with value \<open>v\<close>: \<open>p\<close> is put in the debtor
  list exactly when \<open>v < - 0.005\<close> and in the creditor list exactly when \<open>v > 0.005\<close>.
  So with \<open>v = 0.005\<close> or \<open>v = - 0.005\<close> it is in neither list, with \<open>v = 0.0051\<close> it
  is a creditor with amount \<open>0.0051\<close>, and with \<open>v = - 0.0051\<close> a debtor with amount
  \<open>0.0051\<close>. Sorting keeps the elements of both lists (\<open>set_sort_desc\<close>).
\<close>

theorem tolerance_boundary:
  assumes "distinct (map fst b)" and "(p, v) \<in> set b"
  shows "(p \<in> id_e ` set (fst (partition_entries b)) \<longleftrightarrow> v < - 0.005)
       \<and> (p \<in> id_e ` set (snd (partition_entries b)) \<longleftrightarrow> 0.005 < v)
       \<and> (v = 0.005 \<or> v = - 0.005 \<longrightarrow>
            p \<notin> id_e ` set (fst (partition_entries b)) \<and> p \<notin> id_e ` set (snd (partition_entries b)))
       \<and> (v = 0.0051 \<longrightarrow>
            \<lparr>id_e = p, amount_e = 0.0051\<rparr> \<in> set (snd (partition_entries b))
            \<and> p \<notin> id_e ` set (fst (partition_entries b)))
       \<and> (v = - 0.0051 \<longrightarrow>
            \<lparr>id_e = p, amount_e = 0.0051\<rparr> \<in> set (fst (partition_entries b))
            \<and> p \<notin> id_e ` set (snd (partition_entries b)))"
proof -
  note d = debtor_ids [OF assms] and c = creditor_ids [OF assms]
  have "v = 0.0051 \<longrightarrow> \<lparr>id_e = p, amount_e = 0.0051\<rparr> \<in> set (snd (partition_entries b))"
    using assms(2) unfolding snd_partition_entries by force
  moreover
  have "v = - 0.0051 \<longrightarrow> \<lparr>id_e = p, amount_e = 0.0051\<rparr> \<in> set (fst (partition_entries b))"
    using assms(2) unfolding fst_partition_entries by force
  ultimately show ?thesis
    unfolding d c by auto
qed

theorem tolerance_boundary_witness:
  "''A'' \<notin> id_e ` set (fst (partition_entries
       [(''A'', 0.005), (''B'', - 0.005), (''C'', 0.0051), (''D'', - 0.0051)]))
   \<and> ''A'' \<notin> id_e ` set (snd (partition_entries
       [(''A'', 0.005), (''B'', - 0.005), (''C'', 0.0051), (''D'', - 0.0051)]))
   \<and> \<lparr>id_e = ''C'', amount_e = 0.0051\<rparr> \<in> set (snd (partition_entries
       [(''A'', 0.005), (''B'', - 0.005), (''C'', 0.0051), (''D'', - 0.0051)]))
   \<and> \<lparr>id_e = ''D'', amount_e = 0.0051\<rparr> \<in> set (fst (partition_entries
       [(''A'', 0.005), (''B'', - 0.005), (''C'', 0.0051), (''D'', - 0.0051)]))
   \<and> ''B'' \<notin> id_e ` set (fst (partition_entries
       [(''A'', 0.005), (''B'', - 0.005), (''C'', 0.0051), (''D'', - 0.0051)]))
   \<and> ''B'' \<notin> id_e ` set (snd (partition_entries
       [(''A'', 0.005), (''B'', - 0.005), (''C'', 0.0051), (''D'', - 0.0051)]))"
  using
    tolerance_boundary [of "[(''A'', 0.005), (''B'', - 0.005), (''C'', 0.0051), (''D'', - 0.0051)]"
      "''A''" "0.005"]
    tolerance_boundary [of "[(''A'', 0.005), (''B'', - 0.005), (''C'', 0.0051), (''D'', - 0.0051)]"
      "''B''" "- 0.005"]
    tolerance_boundary [of "[(''A'', 0.005), (''B'', - 0.005), (''C'', 0.0051), (''D'', - 0.0051)]"
      "''C''" "0.0051"]
    tolerance_boundary [of "[(''A'', 0.005), (''B'', - 0.005), (''C'', 0.0051), (''D'', - 0.0051)]"
      "''D''" "- 0.0051"]
  by simp

subsection \<open>C7: transfers are positive\<close>



subsection \<open>C10: the loop terminates, and how many transfers it emits\<close>




section \<open>Properties of deleting a person\<close>

text \<open>
  C8. Deleting the person \<open>pid\<close> keeps exactly the persons with another identifier and
  exactly the expenses paid by somebody else, in their order; each kept expense has
  \<open>pid\<close> filtered out of its participant list and every other field (identifier,
  description, amount, payer, date) as before. Afterwards no expense is paid by \<open>pid\<close>
  or lists \<open>pid\<close>.
\<close>

theorem removePersona_cascade:
  "fst (removePersona pid (personas, gastos)) = filter (\<lambda>p. id_p p \<noteq> pid) personas
   \<and> snd (removePersona pid (personas, gastos)) =
        map (\<lambda>g. g\<lparr>participantes := filter (\<lambda>q. q \<noteq> pid) (participantes g)\<rparr>)
          (filter (\<lambda>g. pagadorId g \<noteq> pid) gastos)
   \<and> (\<forall>g\<in>set (snd (removePersona pid (personas, gastos))).
        pagadorId g \<noteq> pid \<and> pid \<notin> set (participantes g))
   \<and> map (\<lambda>g. (id_g g, descripcion g, monto g, pagadorId g, fecha g))
        (snd (removePersona pid (personas, gastos)))
      = map (\<lambda>g. (id_g g, descripcion g, monto g, pagadorId g, fecha g))
          (filter (\<lambda>g. pagadorId g \<noteq> pid) gastos)"
proof -
  have eq: "snd (removePersona pid (personas, gastos)) =
        map (\<lambda>g. g\<lparr>participantes := filter (\<lambda>q. q \<noteq> pid) (participantes g)\<rparr>)
          (filter (\<lambda>g. pagadorId g \<noteq> pid) gastos)"
    by (simp add: removePersona_def filter_map comp_def)
  show ?thesis
    unfolding eq by (auto simp add: removePersona_def comp_def)
qed

theorem removePersona_cascade_witness:
  "snd (removePersona ''L''
     ([\<lparr>id_p = ''A'', nombre = ''Ana''\<rparr>, \<lparr>id_p = ''L'', nombre = ''Luis''\<rparr>],
      [\<lparr>id_g = ''g1'', descripcion = ''Supermercado'', monto = 54.2, pagadorId = ''A'',
         participantes = [''A'', ''L''], fecha = ''2024-05-01''\<rparr>,
       \<lparr>id_g = ''g2'', descripcion = ''Cafe'', monto = 9.6, pagadorId = ''L'',
         participantes = [''L'', ''A''], fecha = ''2024-05-02''\<rparr>]))
   = [\<lparr>id_g = ''g1'', descripcion = ''Supermercado'', monto = 54.2, pagadorId = ''A'',
         participantes = [''A''], fecha = ''2024-05-01''\<rparr>]
   \<and> fst (removePersona ''L''
     ([\<lparr>id_p = ''A'', nombre = ''Ana''\<rparr>, \<lparr>id_p = ''L'', nombre = ''Luis''\<rparr>],
      [\<lparr>id_g = ''g1'', descripcion = ''Supermercado'', monto = 54.2, pagadorId = ''A'',
         participantes = [''A'', ''L''], fecha = ''2024-05-01''\<rparr>,
       \<lparr>id_g = ''g2'', descripcion = ''Cafe'', monto = 9.6, pagadorId = ''L'',
         participantes = [''L'', ''A''], fecha = ''2024-05-02''\<rparr>]))
   = [\<lparr>id_p = ''A'', nombre = ''Ana''\<rparr>]"
  using removePersona_cascade
    [of "''L''" "[\<lparr>id_p = ''A'', nombre = ''Ana''\<rparr>, \<lparr>id_p = ''L'', nombre = ''Luis''\<rparr>]"
      "[\<lparr>id_g = ''g1'', descripcion = ''Supermercado'', monto = 54.2, pagadorId = ''A'',
         participantes = [''A'', ''L''], fecha = ''2024-05-01''\<rparr>,
       \<lparr>id_g = ''g2'', descripcion = ''Cafe'', monto = 9.6, pagadorId = ''L'',
         participantes = [''L'', ''A''], fecha = ''2024-05-02''\<rparr>]"]
  by simp

end
